theory Spec2Isabelle
  imports Complex_Main
begin

section \<open>The video-frames pipeline of backend/app.py\<close>

text \<open>
  The theory embeds the handler \<^verbatim>\<open>predict_video_frames\<close> (POST /predict/video/frames)
  of \<^verbatim>\<open>backend/app.py\<close>. Python integers are \<open>int\<close>, the quotient of Python's true
  division \<^verbatim>\<open>/\<close> on integers is kept exact as a \<open>rat\<close>, every exception is a value
  \<open>exn\<close> on the left of a sum, and the temporary files are a map from paths to contents
  that the handler takes and returns. A local variable whose name is also a key of a
  returned dictionary carries a prime (\<open>fps'\<close> for \<^verbatim>\<open>fps\<close>). The collaborators of the
  handler (OpenCV and the loaded YOLO model) are the fields of a record, each with the
  failure it can raise.
\<close>

subsection \<open>Exceptions and their messages\<close>

datatype exn =
    ZeroDivisionError
  | KeyError int
  | ValueError
  | OverflowError
  | External string

definition digit :: "nat \<Rightarrow> char" where
  "digit n = ''0123456789'' ! n"

function str_nat :: "nat \<Rightarrow> string" where
  "str_nat n = (if n < 10 then [digit n] else str_nat (n div 10) @ [digit (n mod 10)])"
  by pat_completeness auto
termination
  by (relation "measure (\<lambda>n. n)") auto

declare str_nat.simps [simp del]

definition str_int :: "int \<Rightarrow> string" where
  "str_int i = (if i < 0 then ''-'' @ str_nat (nat (- i)) else str_nat (nat i))"

text \<open>\<^verbatim>\<open>str(e)\<close>: the message that becomes the detail of the HTTP 500 response.\<close>

fun str :: "exn \<Rightarrow> string" where
  "str ZeroDivisionError = ''division by zero''"
| "str (KeyError k) = str_int k"
| "str ValueError = ''cannot convert float NaN to integer''"
| "str OverflowError = ''cannot convert float infinity to integer''"
| "str (External m) = m"

subsection \<open>Numbers\<close>

text \<open>The double that \<^verbatim>\<open>cap.get\<close> returns.\<close>

datatype pyfloat = Finite rat | Infinity | NaN

text \<open>\<^verbatim>\<open>int(x)\<close> on a float truncates towards zero and raises on NaN and infinity.\<close>

fun int_of_float :: "pyfloat \<Rightarrow> exn + int" where
  "int_of_float (Finite q) = Inr (if q < 0 then \<lceil>q\<rceil> else \<lfloor>q\<rfloor>)"
| "int_of_float Infinity = Inl OverflowError"
| "int_of_float NaN = Inl ValueError"

text \<open>\<^verbatim>\<open>a / b\<close> on two integers.\<close>

definition truediv :: "int \<Rightarrow> int \<Rightarrow> exn + rat" where
  "truediv a b = (if b = 0 then Inl ZeroDivisionError else Inr (of_int a / of_int b))"

subsection \<open>Data\<close>

type_synonym path = string
type_synonym bytes = string
type_synonym fs = "path \<rightharpoonup> bytes"

text \<open>One element of \<^verbatim>\<open>results[0].boxes\<close>.\<close>

record box =
  xyxy :: "rat \<times> rat \<times> rat \<times> rat"
  conf :: rat
  cls :: int

text \<open>One entry of \<^verbatim>\<open>detections\<close>; the key \<^verbatim>\<open>"class"\<close> is the field \<open>class_name\<close>.\<close>

record detection =
  class_name :: string
  confidence :: rat
  bbox :: "rat list"
  class_id :: int

text \<open>One entry of \<^verbatim>\<open>frame_data\<close>.\<close>

record frame_record =
  frame_number :: int
  timestamp :: rat
  detections :: "detection list"
  frame_image :: string

text \<open>The dictionary the handler returns.\<close>

record payload =
  success :: bool
  fps :: int
  total_frames :: int
  duration :: rat
  frame_interval :: int
  frames :: "frame_record list"
  message :: string

datatype response = HTTP200 payload | HTTP500 string

text \<open>
  An opened \<^verbatim>\<open>cv2.VideoCapture\<close>: the two properties the handler reads and the frames
  that \<^verbatim>\<open>cap.read()\<close> delivers, in order, before it first returns \<^verbatim>\<open>ret = False\<close>.
  The reported frame count is a property of the container and is independent of the
  frames that decode.
\<close>

record 'f capture =
  CAP_PROP_FPS :: pyfloat
  CAP_PROP_FRAME_COUNT :: pyfloat
  read_frames :: "'f list"

text \<open>A capture that failed to open: every property reads 0.0 and no frame is delivered.\<close>

definition closed_capture :: "'f capture" where
  "closed_capture = \<lparr>CAP_PROP_FPS = Finite 0, CAP_PROP_FRAME_COUNT = Finite 0, read_frames = []\<rparr>"

text \<open>
  The collaborators: OpenCV (\<open>VideoCapture\<close> decodes the bytes of the file, \<open>cvtColor\<close>,
  \<open>imencode\<close> followed by base64) and the model (\<open>predict\<close> gives \<^verbatim>\<open>results[0].boxes\<close>,
  which may be \<^verbatim>\<open>None\<close>; \<open>names\<close> is \<^verbatim>\<open>model.names\<close>).
\<close>

record 'f deps =
  VideoCapture :: "bytes \<Rightarrow> 'f capture"
  cvtColor :: "'f \<Rightarrow> exn + 'f"
  predict :: "'f \<Rightarrow> exn + box list option"
  names :: "int \<rightharpoonup> string"
  imencode :: "'f \<Rightarrow> exn + string"

text \<open>
  What the operating system and the client do during one request: the name of the
  temporary file (or the failure to create it), the uploaded bytes (or the failure to
  read them), and whether writing and unlinking fail.
\<close>

record request =
  NamedTemporaryFile :: "exn + path"
  file_read :: "exn + bytes"
  write_error :: "exn option"
  unlink_error :: "exn option"

subsection \<open>The frame processor\<close>

text \<open>The inner loop over \<^verbatim>\<open>results[0].boxes\<close> (lines 172-183).\<close>

fun process_boxes :: "(int \<rightharpoonup> string) \<Rightarrow> box list \<Rightarrow> detection list \<Rightarrow> exn + detection list" where
  "process_boxes nm [] dets = Inr dets"
| "process_boxes nm (b # bs) dets =
     (case xyxy b of (x1, y1, x2, y2) \<Rightarrow>
        (case nm (cls b) of
           None \<Rightarrow> Inl (KeyError (cls b))
         | Some class_name' \<Rightarrow>
             process_boxes nm bs
               (dets @ [\<lparr>class_name = class_name', confidence = conf b,
                         bbox = [x1, y1, x2, y2], class_id = cls b\<rparr>])))"

text \<open>The body of \<^verbatim>\<open>if frame_count % frame_interval == 0\<close> (lines 163-194).\<close>

definition process_frame :: "'f deps \<Rightarrow> int \<Rightarrow> 'f \<Rightarrow> int \<Rightarrow> exn + frame_record" where
  "process_frame d fps' frame frame_count =
     (case cvtColor d frame of
        Inl e \<Rightarrow> Inl e
      | Inr frame_rgb \<Rightarrow>
          (case predict d frame_rgb of
             Inl e \<Rightarrow> Inl e
           | Inr boxes \<Rightarrow>
               (case (case boxes of None \<Rightarrow> Inr [] | Some bs \<Rightarrow> process_boxes (names d) bs []) of
                  Inl e \<Rightarrow> Inl e
                | Inr detections' \<Rightarrow>
                    (case imencode d frame of
                       Inl e \<Rightarrow> Inl e
                     | Inr frame_base64 \<Rightarrow>
                         (case truediv frame_count fps' of
                            Inl e \<Rightarrow> Inl e
                          | Inr ts \<Rightarrow>
                              Inr \<lparr>frame_number = frame_count, timestamp = ts,
                                   detections = detections', frame_image = frame_base64\<rparr>)))))"

text \<open>
  The \<^verbatim>\<open>while True\<close> loop (lines 157-196) over the frames that \<^verbatim>\<open>cap.read()\<close> delivers;
  it ends when the source is exhausted.
\<close>

fun process_frames ::
  "'f deps \<Rightarrow> int \<Rightarrow> int \<Rightarrow> 'f list \<Rightarrow> int \<Rightarrow> frame_record list \<Rightarrow> exn + frame_record list" where
  "process_frames d fps' interval [] frame_count frame_data = Inr frame_data"
| "process_frames d fps' interval (frame # rest) frame_count frame_data =
     (if frame_count mod interval = 0 then
        (case process_frame d fps' frame frame_count of
           Inl e \<Rightarrow> Inl e
         | Inr r \<Rightarrow> process_frames d fps' interval rest (frame_count + 1) (frame_data @ [r]))
      else process_frames d fps' interval rest (frame_count + 1) frame_data)"

subsection \<open>The handler\<close>

text \<open>\<^verbatim>\<open>cv2.VideoCapture(tmp_file_path)\<close>: a path with no file gives a closed capture.\<close>

definition open_capture :: "'f deps \<Rightarrow> fs \<Rightarrow> path \<Rightarrow> 'f capture" where
  "open_capture d files p = (case files p of None \<Rightarrow> closed_capture | Some c \<Rightarrow> VideoCapture d c)"

text \<open>Lines 146-196 and 201-209: everything between writing the file and unlinking it.\<close>

definition analyse :: "'f deps \<Rightarrow> 'f capture \<Rightarrow> exn + payload" where
  "analyse d cap =
     (case int_of_float (CAP_PROP_FPS cap) of
        Inl e \<Rightarrow> Inl e
      | Inr fps' \<Rightarrow>
          (case int_of_float (CAP_PROP_FRAME_COUNT cap) of
             Inl e \<Rightarrow> Inl e
           | Inr total_frames' \<Rightarrow>
               (case truediv total_frames' fps' of
                  Inl e \<Rightarrow> Inl e
                | Inr duration' \<Rightarrow>
                    (let frame_interval' = max 1 (fps' div 2) in
                     case process_frames d fps' frame_interval' (read_frames cap) 0 [] of
                       Inl e \<Rightarrow> Inl e
                     | Inr frame_data \<Rightarrow>
                         Inr \<lparr>success = True, fps = fps', total_frames = total_frames',
                              duration = duration', frame_interval = frame_interval',
                              frames = frame_data,
                              message = ''Processed '' @ str_nat (length frame_data) @ '' frames''\<rparr>))))"

text \<open>
  The \<^verbatim>\<open>try\<close> block (lines 137-209), with the files before and after. The temporary file
  is created empty, filled with the upload, and unlinked at line 199, after the loop.
  A write that raises leaves the file in place; the model keeps it empty then.
\<close>

definition try_block :: "'f deps \<Rightarrow> request \<Rightarrow> fs \<Rightarrow> (exn + payload) \<times> fs" where
  "try_block d rq files =
     (case NamedTemporaryFile rq of
        Inl e \<Rightarrow> (Inl e, files)
      | Inr tmp_file_path \<Rightarrow>
          (let files1 = files(tmp_file_path \<mapsto> []) in
           case file_read rq of
             Inl e \<Rightarrow> (Inl e, files1)
           | Inr content \<Rightarrow>
               (case write_error rq of
                  Some e \<Rightarrow> (Inl e, files1)
                | None \<Rightarrow>
                    (let files2 = files1(tmp_file_path \<mapsto> content) in
                     case analyse d (open_capture d files2 tmp_file_path) of
                       Inl e \<Rightarrow> (Inl e, files2)
                     | Inr result \<Rightarrow>
                         (case unlink_error rq of
                            Some e \<Rightarrow> (Inl e, files2)
                          | None \<Rightarrow> (Inr result, files2(tmp_file_path := None)))))))"

text \<open>\<^verbatim>\<open>except Exception as e: raise HTTPException(status_code=500, detail=str(e))\<close>.\<close>

definition predict_video_frames :: "'f deps \<Rightarrow> request \<Rightarrow> fs \<Rightarrow> response \<times> fs" where
  "predict_video_frames d rq files =
     (case try_block d rq files of
        (Inl e, files') \<Rightarrow> (HTTP500 (str e), files')
      | (Inr result, files') \<Rightarrow> (HTTP200 result, files'))"

subsection \<open>Collaborators that raise nothing\<close>

text \<open>
  \<open>frame_ok d frame\<close>: on this frame neither the colour conversion, the model, the
  lookup of a class name nor the encoder raises.
\<close>

definition frame_ok :: "'f deps \<Rightarrow> 'f \<Rightarrow> bool" where
  "frame_ok d frame =
     (case cvtColor d frame of
        Inl e \<Rightarrow> False
      | Inr frame_rgb \<Rightarrow>
          (case predict d frame_rgb of
             Inl e \<Rightarrow> False
           | Inr boxes \<Rightarrow>
               (case boxes of None \<Rightarrow> True | Some bs \<Rightarrow> list_all (\<lambda>b. names d (cls b) \<noteq> None) bs)
               \<and> (case imencode d frame of Inl e \<Rightarrow> False | Inr s \<Rightarrow> True)))"

subsection \<open>Sample inputs\<close>

text \<open>
  A decoder that opens only the upload \<open>''mp4''\<close>, with the frame rate, frame count and
  frames given; frames are numbered. The sample model finds one crack in frame 2, finds
  nothing elsewhere and raises on frame 7.
\<close>

definition sample_video :: "rat \<Rightarrow> rat \<Rightarrow> nat list \<Rightarrow> nat deps" where
  "sample_video rate count fs =
     \<lparr>VideoCapture = (\<lambda>c. if c = ''mp4''
                          then \<lparr>CAP_PROP_FPS = Finite rate, CAP_PROP_FRAME_COUNT = Finite count,
                                read_frames = fs\<rparr>
                          else closed_capture),
      cvtColor = Inr,
      predict = (\<lambda>f. if f = 2 then Inr (Some [\<lparr>xyxy = (1, 2, 3, 4), conf = 1 / 2, cls = 0\<rparr>])
                      else if f = 7 then Inl (External ''CUDA out of memory'')
                      else Inr None),
      names = [0 \<mapsto> ''crack''],
      imencode = (\<lambda>f. Inr ''/9j/'')\<rparr>"

definition upload :: "bytes \<Rightarrow> path \<Rightarrow> request" where
  "upload c tmp = \<lparr>NamedTemporaryFile = Inr tmp, file_read = Inr c,
                   write_error = None, unlink_error = None\<rparr>"

definition sample_payload :: payload where
  "sample_payload =
     \<lparr>success = True, fps = 4, total_frames = 5, duration = 5 / 4, frame_interval = 2,
      frames = [\<lparr>frame_number = 0, timestamp = 0, detections = [], frame_image = ''/9j/''\<rparr>,
                \<lparr>frame_number = 2, timestamp = 1 / 2,
                 detections = [\<lparr>class_name = ''crack'', confidence = 1 / 2,
                                bbox = [1, 2, 3, 4], class_id = 0\<rparr>],
                 frame_image = ''/9j/''\<rparr>,
                \<lparr>frame_number = 4, timestamp = 1, detections = [], frame_image = ''/9j/''\<rparr>],
      message = ''Processed 3 frames''\<rparr>"

section \<open>Properties\<close>

subsection \<open>The frame processor and the loop\<close>

lemma process_boxes_total:
  "list_all (\<lambda>b. nm (cls b) \<noteq> None) bs \<Longrightarrow> \<exists>ds. process_boxes nm bs acc = Inr ds"
  by (induction bs arbitrary: acc) (auto split: prod.splits)

lemma process_frame_total:
  "fp \<noteq> 0 \<Longrightarrow> frame_ok d f \<Longrightarrow> \<exists>r. process_frame d fp f n = Inr r"
  unfolding frame_ok_def process_frame_def truediv_def
  using process_boxes_total [of "names d" _ "[]"]
  by (fastforce split: sum.splits option.splits)

lemma process_frame_number: "process_frame d fp f n = Inr r \<Longrightarrow> frame_number r = n"
  by (auto simp: process_frame_def truediv_def split: sum.splits if_splits)

lemma process_frame_timestamp:
  "process_frame d fp f n = Inr r \<Longrightarrow> fp \<noteq> 0 \<and> timestamp r = of_int n / of_int fp"
  by (auto simp: process_frame_def truediv_def split: sum.splits if_splits)

lemma process_frame_detections:
  "process_frame d fp f n = Inr r \<Longrightarrow>
   \<exists>g bo. cvtColor d f = Inr g \<and> predict d g = Inr bo \<and>
     (case bo of None \<Rightarrow> Inr [] | Some bs \<Rightarrow> process_boxes (names d) bs []) = Inr (detections r)"
  by (auto simp: process_frame_def truediv_def split: sum.splits if_splits)

lemma process_frames_acc:
  "process_frames d fp k xs n acc = Inr res \<Longrightarrow> set acc \<subseteq> set res"
proof (induction xs arbitrary: n acc)
  case Nil
  then show ?case by simp
next
  case (Cons x xs)
  show ?case
  proof (cases "n mod k = 0")
    case True
    with Cons.prems obtain r where "process_frames d fp k xs (n + 1) (acc @ [r]) = Inr res"
      by (auto split: sum.splits)
    from Cons.IH [OF this] show ?thesis by simp
  next
    case False
    with Cons.prems have "process_frames d fp k xs (n + 1) acc = Inr res" by simp
    from Cons.IH [OF this] show ?thesis .
  qed
qed

lemma process_frames_numbers:
  "process_frames d fp k xs n acc = Inr res \<Longrightarrow>
   map frame_number res =
     map frame_number acc @ filter (\<lambda>i. i mod k = 0) [n..n + int (length xs) - 1]"
proof (induction xs arbitrary: n acc)
  case Nil
  then show ?case by simp
next
  case (Cons x xs)
  have range: "[n..n + int (length (x # xs)) - 1] = n # [n + 1..n + 1 + int (length xs) - 1]"
    by (simp add: upto_rec1)
  show ?case
  proof (cases "n mod k = 0")
    case True
    with Cons.prems obtain r where r: "process_frame d fp x n = Inr r"
      and rest: "process_frames d fp k xs (n + 1) (acc @ [r]) = Inr res"
      by (auto split: sum.splits)
    from Cons.IH [OF rest] process_frame_number [OF r] True show ?thesis
      unfolding range by simp
  next
    case False
    with Cons.prems have "process_frames d fp k xs (n + 1) acc = Inr res" by simp
    from Cons.IH [OF this] False show ?thesis unfolding range by simp
  qed
qed

lemma process_frames_sampled:
  "process_frames d fp k xs n acc = Inr res \<Longrightarrow> i < length xs \<Longrightarrow> (n + int i) mod k = 0 \<Longrightarrow>
   \<exists>r\<in>set res. process_frame d fp (xs ! i) (n + int i) = Inr r"
proof (induction xs arbitrary: n acc i)
  case Nil
  then show ?case by simp
next
  case (Cons x xs)
  show ?case
  proof (cases i)
    case 0
    with Cons.prems obtain r where r: "process_frame d fp x n = Inr r"
      and rest: "process_frames d fp k xs (n + 1) (acc @ [r]) = Inr res"
      by (auto split: sum.splits)
    from process_frames_acc [OF rest] have "r \<in> set res" by auto
    with r 0 show ?thesis by auto
  next
    case (Suc j)
    from Cons.prems(1) obtain acc' where rest: "process_frames d fp k xs (n + 1) acc' = Inr res"
      by (auto split: sum.splits if_splits)
    from Suc Cons.prems have "j < length xs" and "(n + 1 + int j) mod k = 0"
      by (simp_all add: algebra_simps)
    from Cons.IH [OF rest this] Suc show ?thesis by (simp add: algebra_simps)
  qed
qed

lemma process_frames_origin:
  "process_frames d fp k xs n acc = Inr res \<Longrightarrow> r \<in> set res \<Longrightarrow>
   r \<in> set acc \<or> (\<exists>i<length xs. process_frame d fp (xs ! i) (n + int i) = Inr r)"
proof (induction xs arbitrary: n acc)
  case Nil
  then show ?case by simp
next
  case (Cons x xs)
  show ?case
  proof (cases "n mod k = 0")
    case True
    with Cons.prems obtain r' where r': "process_frame d fp x n = Inr r'"
      and rest: "process_frames d fp k xs (n + 1) (acc @ [r']) = Inr res"
      by (auto split: sum.splits)
    from Cons.IH [OF rest Cons.prems(2)]
    consider "r \<in> set acc" | "r = r'"
      | i where "i < length xs" "process_frame d fp (xs ! i) (n + 1 + int i) = Inr r"
      by auto
    then show ?thesis
    proof cases
      case 1
      then show ?thesis by simp
    next
      case 2
      with r' have "0 < length (x # xs) \<and> process_frame d fp ((x # xs) ! 0) (n + int 0) = Inr r"
        by simp
      then show ?thesis by blast
    next
      case 3
      then have "Suc i < length (x # xs) \<and> process_frame d fp ((x # xs) ! Suc i) (n + int (Suc i)) = Inr r"
        by (simp add: algebra_simps)
      then show ?thesis by blast
    qed
  next
    case False
    with Cons.prems have rest: "process_frames d fp k xs (n + 1) acc = Inr res" by simp
    from Cons.IH [OF rest Cons.prems(2)]
    consider "r \<in> set acc"
      | i where "i < length xs" "process_frame d fp (xs ! i) (n + 1 + int i) = Inr r"
      by auto
    then show ?thesis
    proof cases
      case 1
      then show ?thesis by simp
    next
      case 2
      then have "Suc i < length (x # xs) \<and> process_frame d fp ((x # xs) ! Suc i) (n + int (Suc i)) = Inr r"
        by (simp add: algebra_simps)
      then show ?thesis by blast
    qed
  qed
qed

lemma process_frames_total:
  "fp \<noteq> 0 \<Longrightarrow> list_all (frame_ok d) xs \<Longrightarrow> \<exists>res. process_frames d fp k xs n acc = Inr res"
proof (induction xs arbitrary: n acc)
  case Nil
  then show ?case by simp
next
  case (Cons x xs)
  then obtain r where "process_frame d fp x n = Inr r"
    using process_frame_total [of fp d x n] by auto
  with Cons show ?case by simp
qed

lemma analyse_Inr:
  assumes "analyse d cap = Inr p"
  shows "int_of_float (CAP_PROP_FPS cap) = Inr (fps p)"
    and "int_of_float (CAP_PROP_FRAME_COUNT cap) = Inr (total_frames p)"
    and "fps p \<noteq> 0"
    and "success p"
    and "duration p = of_int (total_frames p) / of_int (fps p)"
    and "frame_interval p = max 1 (fps p div 2)"
    and "process_frames d (fps p) (frame_interval p) (read_frames cap) 0 [] = Inr (frames p)"
    and "message p = ''Processed '' @ str_nat (length (frames p)) @ '' frames''"
  using assms
  by (auto simp: analyse_def truediv_def Let_def split: sum.splits if_splits)

lemma open_written: "open_capture d (files(p \<mapsto> c)) p = VideoCapture d c"
  by (simp add: open_capture_def)

lemma handler_run:
  assumes "NamedTemporaryFile rq = Inr tmp" "file_read rq = Inr content"
    "write_error rq = None" "unlink_error rq = None"
  shows "predict_video_frames d rq files =
    (case analyse d (VideoCapture d content) of
       Inl e \<Rightarrow> (HTTP500 (str e), files(tmp \<mapsto> content))
     | Inr p \<Rightarrow> (HTTP200 p, files(tmp := None)))"
  using assms
  by (simp add: predict_video_frames_def try_block_def Let_def open_written split: sum.splits)

lemma handler_HTTP200:
  assumes "fst (predict_video_frames d rq files) = HTTP200 p"
  shows "\<exists>tmp content. NamedTemporaryFile rq = Inr tmp \<and> file_read rq = Inr content \<and>
     write_error rq = None \<and> unlink_error rq = None \<and>
     analyse d (VideoCapture d content) = Inr p \<and>
     snd (predict_video_frames d rq files) = files(tmp := None)"
  using assms
  by (auto simp: predict_video_frames_def try_block_def Let_def open_written
      split: sum.splits option.splits)

lemma response_cases:
  "(\<exists>p. fst (predict_video_frames d rq files) = HTTP200 p) \<or>
   (\<exists>m. fst (predict_video_frames d rq files) = HTTP500 m)"
  by (cases "fst (predict_video_frames d rq files)") auto

subsection \<open>When the analysis succeeds\<close>

lemma analyse_total:
  assumes "int_of_float (CAP_PROP_FPS cap) = Inr fp" and "fp \<noteq> 0"
    and "int_of_float (CAP_PROP_FRAME_COUNT cap) = Inr tot"
    and "list_all (frame_ok d) (read_frames cap)"
  shows "\<exists>p. analyse d cap = Inr p"
  using process_frames_total [OF assms(2,4), of "max 1 (fp div 2)" 0 "[]"] assms(1,2,3)
  by (auto simp: analyse_def truediv_def Let_def)

lemma success_numbers:
  assumes "fst (predict_video_frames d rq files) = HTTP200 p" and "file_read rq = Inr content"
  shows "map frame_number (frames p) =
    filter (\<lambda>i. i mod frame_interval p = 0) [0..int (length (read_frames (VideoCapture d content))) - 1]"
proof -
  from handler_HTTP200 [OF assms(1)] assms(2)
  have "analyse d (VideoCapture d content) = Inr p" by auto
  from process_frames_numbers [OF analyse_Inr(7) [OF this]] show ?thesis by simp
qed

subsection \<open>A second encoder\<close>

lemma process_frame_reencoded:
  assumes "process_frame d fp f n = Inr r"
    and "process_frame (d\<lparr>imencode := enc\<rparr>) fp f n = Inr r'"
  shows "frame_number r = frame_number r' \<and> timestamp r = timestamp r' \<and>
    detections r = detections r'"
  using assms by (auto simp: process_frame_def split: sum.splits cong: option.case_cong)

lemma process_frames_reencoded:
  assumes "process_frames d fp k xs n acc = Inr res"
    and "process_frames (d\<lparr>imencode := enc\<rparr>) fp k xs n acc' = Inr res'"
    and "map (\<lambda>r. (frame_number r, timestamp r, detections r)) acc =
         map (\<lambda>r. (frame_number r, timestamp r, detections r)) acc'"
  shows "map (\<lambda>r. (frame_number r, timestamp r, detections r)) res =
         map (\<lambda>r. (frame_number r, timestamp r, detections r)) res'"
  using assms
proof (induction xs arbitrary: n acc acc')
  case Nil
  then show ?case by simp
next
  case (Cons x xs)
  show ?case
  proof (cases "n mod k = 0")
    case True
    with Cons.prems(1) obtain r where r: "process_frame d fp x n = Inr r"
      and rest: "process_frames d fp k xs (n + 1) (acc @ [r]) = Inr res"
      by (auto split: sum.splits)
    from True Cons.prems(2) obtain r' where r': "process_frame (d\<lparr>imencode := enc\<rparr>) fp x n = Inr r'"
      and rest': "process_frames (d\<lparr>imencode := enc\<rparr>) fp k xs (n + 1) (acc' @ [r']) = Inr res'"
      by (auto split: sum.splits)
    from process_frame_reencoded [OF r r'] Cons.prems(3)
    have "map (\<lambda>r. (frame_number r, timestamp r, detections r)) (acc @ [r]) =
          map (\<lambda>r. (frame_number r, timestamp r, detections r)) (acc' @ [r'])"
      by simp
    from Cons.IH [OF rest rest' this] show ?thesis .
  next
    case False
    with Cons.prems have "process_frames d fp k xs (n + 1) acc = Inr res"
      and "process_frames (d\<lparr>imencode := enc\<rparr>) fp k xs (n + 1) acc' = Inr res'"
      by simp_all
    from Cons.IH [OF this Cons.prems(3)] show ?thesis .
  qed
qed

subsection \<open>Evaluating the sample inputs\<close>

lemmas run_defs =
  predict_video_frames_def try_block_def analyse_def open_capture_def closed_capture_def
  process_frame_def truediv_def sample_video_def upload_def Let_def digit_def

lemma sample_run:
  "predict_video_frames (sample_video 4 5 [0, 1, 2, 3, 4]) (upload ''mp4'' ''/tmp/tmpq1.mp4'') Map.empty
     = (HTTP200 sample_payload, Map.empty)"
  by (simp add: run_defs sample_payload_def str_nat.simps)

lemma floor_half: "\<lfloor>1 / 2 :: rat\<rfloor> = 0"
  by (rule floor_unique) simp_all

lemma sampled_300: "filter (\<lambda>i. i mod 15 = 0) [0..299::int] =
  [0, 15, 30, 45, 60, 75, 90, 105, 120, 135, 150, 165, 180, 195, 210, 225, 240, 255, 270, 285]"
  by code_simp

section \<open>The claims\<close>

subsection \<open>C1: cleanup of the temporary file\<close>

text \<open>
  C1. The claim: the temporary file holding the upload is deleted on every exit path,
  also when the pipeline fails. The handler unlinks it at line 199 only, after the loop,
  so an exception anywhere before leaves it behind. Here an upload that OpenCV cannot
  open reports a frame rate of 0.0, line 150 raises \<^verbatim>\<open>ZeroDivisionError\<close>, the caller gets
  the HTTP 500, and the file is still there with the uploaded bytes.
\<close>

theorem temp_file_left_after_failure:
  "predict_video_frames (sample_video 30 300 []) (upload ''garbage'' ''/tmp/tmpq1.mp4'') Map.empty
     = (HTTP500 ''division by zero'', [''/tmp/tmpq1.mp4'' \<mapsto> ''garbage''])"
  by (simp add: run_defs)

subsection \<open>C2: the sampling interval and the frames it selects\<close>



subsection \<open>C3: order and range of the frame numbers\<close>

text \<open>
  C3, as amended. In every successful response the frame numbers are strictly
  increasing, without duplicates, and are exactly the indices \<open>i\<close> with
  \<open>i mod frame_interval = 0\<close> among the frames that decoded, so each is below the number
  of decoded frames. The bound is the number of frames \<^verbatim>\<open>cap.read()\<close> delivered, not the
  reported \<open>total_frames\<close>, which the handler reads from the container and never compares
  with the loop counter.
\<close>

theorem frame_numbers_increasing_and_sampled:
  assumes "fst (predict_video_frames d rq files) = HTTP200 p" and "file_read rq = Inr content"
  shows "sorted_wrt (<) (map frame_number (frames p)) \<and>
     distinct (map frame_number (frames p)) \<and>
     map frame_number (frames p) =
       filter (\<lambda>i. i mod frame_interval p = 0)
         [0..int (length (read_frames (VideoCapture d content))) - 1] \<and>
     (\<forall>r\<in>set (frames p).
        0 \<le> frame_number r \<and> frame_number r < int (length (read_frames (VideoCapture d content))))"
proof -
  note nums = success_numbers [OF assms]
  have "sorted_wrt (<) (map frame_number (frames p))"
    unfolding nums by (rule sorted_wrt_filter) (simp add: strict_sorted_iff)
  moreover have "distinct (map frame_number (frames p))"
    unfolding nums by simp
  moreover have "0 \<le> frame_number r \<and> frame_number r < int (length (read_frames (VideoCapture d content)))"
    if "r \<in> set (frames p)" for r
  proof -
    from that have "frame_number r \<in> set (map frame_number (frames p))" by simp
    then show ?thesis unfolding nums by auto
  qed
  ultimately show ?thesis using nums by blast
qed

text \<open>
  The sample video again.
\<close>

theorem frame_numbers_increasing_and_sampled_witness:
  "fst (predict_video_frames (sample_video 4 5 [0, 1, 2, 3, 4]) (upload ''mp4'' ''/tmp/tmpq1.mp4'')
      Map.empty) = HTTP200 sample_payload \<and>
   file_read (upload ''mp4'' ''/tmp/tmpq1.mp4'') = Inr ''mp4'' \<and>
   sorted_wrt (<) (map frame_number (frames sample_payload)) \<and>
   distinct (map frame_number (frames sample_payload))"
proof -
  have run: "fst (predict_video_frames (sample_video 4 5 [0, 1, 2, 3, 4])
      (upload ''mp4'' ''/tmp/tmpq1.mp4'') Map.empty) = HTTP200 sample_payload"
    using sample_run by simp
  have rd: "file_read (upload ''mp4'' ''/tmp/tmpq1.mp4'') = Inr ''mp4''"
    by (simp add: upload_def)
  from frame_numbers_increasing_and_sampled [OF run rd] run rd show ?thesis
    by blast
qed

text \<open>
  The claim as stated fails: a container that reports 0 frames and delivers one gives a
  record with \<open>frame_number = 0\<close> next to \<open>total_frames = 0\<close>.
\<close>

theorem frame_number_not_below_total_frames:
  "fst (predict_video_frames (sample_video 2 0 [0]) (upload ''mp4'' ''/tmp/tmpq1.mp4'') Map.empty)
     = HTTP200 \<lparr>success = True, fps = 2, total_frames = 0, duration = 0, frame_interval = 1,
         frames = [\<lparr>frame_number = 0, timestamp = 0, detections = [], frame_image = ''/9j/''\<rparr>],
         message = ''Processed 1 frames''\<rparr>"
  by (simp add: run_defs str_nat.simps)

subsection \<open>C4: a frame rate of zero\<close>

text \<open>
  C4, as amended. When the reported frame rate truncates to 0 the request fails with an
  HTTP 500 and a message; no success payload is produced. The handler has no check of the
  frame rate: the failure is the \<^verbatim>\<open>ZeroDivisionError\<close> of line 150, which a negative rate does
  not raise.
\<close>

theorem zero_frame_rate_fails:
  assumes "file_read rq = Inr content"
    and "int_of_float (CAP_PROP_FPS (VideoCapture d content)) = Inr 0"
  shows "\<exists>detail. fst (predict_video_frames d rq files) = HTTP500 detail"
proof -
  have False if ok: "fst (predict_video_frames d rq files) = HTTP200 p" for p
  proof -
    from handler_HTTP200 [OF ok] assms(1)
    have an: "analyse d (VideoCapture d content) = Inr p" by auto
    from analyse_Inr(1,3) [OF an] assms(2) show False by simp
  qed
  with response_cases [of d rq files] show ?thesis by blast
qed

text \<open>
  An upload that does not open reports 0.0.
\<close>

theorem zero_frame_rate_fails_witness:
  "file_read (upload ''garbage'' ''/tmp/tmpq1.mp4'') = Inr ''garbage'' \<and>
   int_of_float (CAP_PROP_FPS (VideoCapture (sample_video 30 300 []) ''garbage'')) = Inr 0 \<and>
   (\<exists>detail. fst (predict_video_frames (sample_video 30 300 [])
      (upload ''garbage'' ''/tmp/tmpq1.mp4'') Map.empty) = HTTP500 detail)"
proof -
  have rd: "file_read (upload ''garbage'' ''/tmp/tmpq1.mp4'') = Inr ''garbage''"
    by (simp add: upload_def)
  have rate: "int_of_float (CAP_PROP_FPS (VideoCapture (sample_video 30 300 []) ''garbage'')) = Inr 0"
    by (simp add: sample_video_def closed_capture_def)
  from zero_frame_rate_fails [OF rd rate] rd rate show ?thesis by blast
qed

text \<open>
  The claim as stated fails: a reported rate of -1 gives a success payload with negative
  duration and timestamps.
\<close>

theorem negative_frame_rate_accepted:
  "fst (predict_video_frames (sample_video (- 1) 2 [0, 1]) (upload ''mp4'' ''/tmp/tmpq1.mp4'') Map.empty)
     = HTTP200 \<lparr>success = True, fps = - 1, total_frames = 2, duration = - 2, frame_interval = 1,
         frames = [\<lparr>frame_number = 0, timestamp = 0, detections = [], frame_image = ''/9j/''\<rparr>,
                   \<lparr>frame_number = 1, timestamp = - 1, detections = [], frame_image = ''/9j/''\<rparr>],
         message = ''Processed 2 frames''\<rparr>"
  by (simp add: run_defs str_nat.simps ceiling_minus)

subsection \<open>C5: timestamps and duration\<close>

text \<open>
  C5. In every successful response \<open>fps\<close> is not 0, \<open>fps\<close> and \<open>total_frames\<close> are the
  values the capture reported, every record has \<open>timestamp = frame_number / fps\<close>, and
  \<open>duration = total_frames / fps\<close>. The quotients are exact; Python rounds each to the
  nearest double.
\<close>

theorem timestamps_and_duration:
  assumes "fst (predict_video_frames d rq files) = HTTP200 p" and "file_read rq = Inr content"
  shows "fps p \<noteq> 0 \<and>
     int_of_float (CAP_PROP_FPS (VideoCapture d content)) = Inr (fps p) \<and>
     int_of_float (CAP_PROP_FRAME_COUNT (VideoCapture d content)) = Inr (total_frames p) \<and>
     (\<forall>r\<in>set (frames p). timestamp r = of_int (frame_number r) / of_int (fps p)) \<and>
     duration p = of_int (total_frames p) / of_int (fps p)"
proof -
  from handler_HTTP200 [OF assms(1)] assms(2)
  have an: "analyse d (VideoCapture d content) = Inr p" by auto
  note loop = analyse_Inr(7) [OF an]
  have "timestamp r = of_int (frame_number r) / of_int (fps p)" if "r \<in> set (frames p)" for r
  proof -
    from process_frames_origin [OF loop that] obtain i
      where "process_frame d (fps p) (read_frames (VideoCapture d content) ! i) (0 + int i) = Inr r"
      by auto
    from process_frame_number [OF this] process_frame_timestamp [OF this] show ?thesis by simp
  qed
  with analyse_Inr(1,2,3,5) [OF an] show ?thesis by blast
qed

text \<open>
  The sample video: duration 5 / 4.
\<close>

theorem timestamps_and_duration_witness:
  "fst (predict_video_frames (sample_video 4 5 [0, 1, 2, 3, 4]) (upload ''mp4'' ''/tmp/tmpq1.mp4'')
      Map.empty) = HTTP200 sample_payload \<and>
   file_read (upload ''mp4'' ''/tmp/tmpq1.mp4'') = Inr ''mp4'' \<and>
   fps sample_payload \<noteq> 0 \<and>
   duration sample_payload =
     of_int (total_frames sample_payload) / of_int (fps sample_payload)"
proof -
  have run: "fst (predict_video_frames (sample_video 4 5 [0, 1, 2, 3, 4])
      (upload ''mp4'' ''/tmp/tmpq1.mp4'') Map.empty) = HTTP200 sample_payload"
    using sample_run by simp
  have rd: "file_read (upload ''mp4'' ''/tmp/tmpq1.mp4'') = Inr ''mp4''"
    by (simp add: upload_def)
  from timestamps_and_duration [OF run rd] run rd show ?thesis
    by blast
qed

subsection \<open>C6: ten seconds at 30 frames per second\<close>

text \<open>
  C6. A video that reports 30 frames per second and 300 frames, delivers 300 frames, and
  on which no collaborator raises, gets a success response with duration 10,
  \<open>frame_interval = 15\<close> and exactly 20 records, numbered 0, 15, 30, ..., 285.
\<close>

theorem ten_seconds_at_30_fps:
  assumes "NamedTemporaryFile rq = Inr tmp" and "file_read rq = Inr content"
    and "write_error rq = None" and "unlink_error rq = None"
    and "CAP_PROP_FPS (VideoCapture d content) = Finite 30"
    and "CAP_PROP_FRAME_COUNT (VideoCapture d content) = Finite 300"
    and "length (read_frames (VideoCapture d content)) = 300"
    and "list_all (frame_ok d) (read_frames (VideoCapture d content))"
  shows "\<exists>p. fst (predict_video_frames d rq files) = HTTP200 p \<and>
     duration p = 10 \<and> frame_interval p = 15 \<and> length (frames p) = 20 \<and>
     map frame_number (frames p) =
       [0, 15, 30, 45, 60, 75, 90, 105, 120, 135, 150, 165, 180, 195, 210, 225, 240, 255, 270, 285]"
proof -
  let ?cap = "VideoCapture d content"
  from assms(5) have fp: "int_of_float (CAP_PROP_FPS ?cap) = Inr 30" by simp
  from assms(6) have tot: "int_of_float (CAP_PROP_FRAME_COUNT ?cap) = Inr 300" by simp
  from analyse_total [OF fp _ tot assms(8)] obtain p where an: "analyse d ?cap = Inr p"
    by auto
  from handler_run [OF assms(1-4), of d files] an
  have run: "fst (predict_video_frames d rq files) = HTTP200 p" by simp
  from analyse_Inr(1,2) [OF an] fp tot have vals: "fps p = 30" "total_frames p = 300"
    by simp_all
  with analyse_Inr(5,6) [OF an] have dur: "duration p = 10" and iv: "frame_interval p = 15"
    by simp_all
  from process_frames_numbers [OF analyse_Inr(7) [OF an]] iv assms(7)
  have "map frame_number (frames p) = filter (\<lambda>i. i mod 15 = 0) [0..299]" by simp
  with sampled_300 have nums: "map frame_number (frames p) =
      [0, 15, 30, 45, 60, 75, 90, 105, 120, 135, 150, 165, 180, 195, 210, 225, 240, 255, 270, 285]"
    by simp
  from arg_cong [OF nums, of length] have len: "length (frames p) = 20" by simp
  show ?thesis by (rule exI [of _ p]) (simp add: run dur iv nums len)
qed

text \<open>
  300 copies of frame 0, on which the sample model finds nothing.
\<close>

theorem ten_seconds_at_30_fps_witness:
  "NamedTemporaryFile (upload ''mp4'' ''/tmp/tmpq1.mp4'') = Inr ''/tmp/tmpq1.mp4'' \<and>
   file_read (upload ''mp4'' ''/tmp/tmpq1.mp4'') = Inr ''mp4'' \<and>
   write_error (upload ''mp4'' ''/tmp/tmpq1.mp4'') = None \<and>
   unlink_error (upload ''mp4'' ''/tmp/tmpq1.mp4'') = None \<and>
   CAP_PROP_FPS (VideoCapture (sample_video 30 300 (replicate 300 0)) ''mp4'') = Finite 30 \<and>
   CAP_PROP_FRAME_COUNT (VideoCapture (sample_video 30 300 (replicate 300 0)) ''mp4'') = Finite 300 \<and>
   length (read_frames (VideoCapture (sample_video 30 300 (replicate 300 0)) ''mp4'')) = 300 \<and>
   list_all (frame_ok (sample_video 30 300 (replicate 300 0)))
     (read_frames (VideoCapture (sample_video 30 300 (replicate 300 0)) ''mp4'')) \<and>
   (\<exists>p. fst (predict_video_frames (sample_video 30 300 (replicate 300 0))
            (upload ''mp4'' ''/tmp/tmpq1.mp4'') Map.empty) = HTTP200 p \<and>
        frame_interval p = 15 \<and> length (frames p) = 20)"
proof -
  let ?d = "sample_video 30 300 (replicate 300 0)"
  let ?rq = "upload ''mp4'' ''/tmp/tmpq1.mp4''"
  have a: "NamedTemporaryFile ?rq = Inr ''/tmp/tmpq1.mp4''" "file_read ?rq = Inr ''mp4''"
    "write_error ?rq = None" "unlink_error ?rq = None"
    by (simp_all add: upload_def)
  have b: "CAP_PROP_FPS (VideoCapture ?d ''mp4'') = Finite 30"
    "CAP_PROP_FRAME_COUNT (VideoCapture ?d ''mp4'') = Finite 300"
    "length (read_frames (VideoCapture ?d ''mp4'')) = 300"
    by (simp_all add: sample_video_def)
  have c: "list_all (frame_ok ?d) (read_frames (VideoCapture ?d ''mp4''))"
    by (simp add: sample_video_def frame_ok_def list_all_iff)
  from ten_seconds_at_30_fps [OF a b c, of Map.empty] a b c show ?thesis by blast
qed

subsection \<open>C7: frames without detections\<close>

text \<open>
  C7. In a successful response, a sampled frame on which the model returns no boxes
  (\<^verbatim>\<open>boxes\<close> is \<^verbatim>\<open>None\<close> or empty) still has its record in \<open>frames\<close>, with an empty
  \<open>detections\<close> list.
\<close>

theorem empty_detections_kept:
  assumes "fst (predict_video_frames d rq files) = HTTP200 p" and "file_read rq = Inr content"
    and "i < length (read_frames (VideoCapture d content))"
    and "int i mod frame_interval p = 0"
    and "cvtColor d (read_frames (VideoCapture d content) ! i) = Inr frame_rgb"
    and "predict d frame_rgb = Inr None \<or> predict d frame_rgb = Inr (Some [])"
  shows "\<exists>r\<in>set (frames p). frame_number r = int i \<and> detections r = []"
proof -
  from handler_HTTP200 [OF assms(1)] assms(2)
  have an: "analyse d (VideoCapture d content) = Inr p" by auto
  from process_frames_sampled [OF analyse_Inr(7) [OF an] assms(3)] assms(4)
  obtain r where r: "r \<in> set (frames p)"
    and pf: "process_frame d (fps p) (read_frames (VideoCapture d content) ! i) (0 + int i) = Inr r"
    by auto
  from process_frame_detections [OF pf] assms(5,6) have "detections r = []" by auto
  with r process_frame_number [OF pf] show ?thesis by auto
qed

text \<open>
  Frame 4 of the sample video.
\<close>

theorem empty_detections_kept_witness:
  "fst (predict_video_frames (sample_video 4 5 [0, 1, 2, 3, 4]) (upload ''mp4'' ''/tmp/tmpq1.mp4'')
      Map.empty) = HTTP200 sample_payload \<and>
   file_read (upload ''mp4'' ''/tmp/tmpq1.mp4'') = Inr ''mp4'' \<and>
   4 < length (read_frames (VideoCapture (sample_video 4 5 [0, 1, 2, 3, 4]) ''mp4'')) \<and>
   int 4 mod frame_interval sample_payload = 0 \<and>
   cvtColor (sample_video 4 5 [0, 1, 2, 3, 4])
     (read_frames (VideoCapture (sample_video 4 5 [0, 1, 2, 3, 4]) ''mp4'') ! 4) = Inr 4 \<and>
   predict (sample_video 4 5 [0, 1, 2, 3, 4]) 4 = Inr None \<and>
   (\<exists>r\<in>set (frames sample_payload). frame_number r = int 4 \<and> detections r = [])"
proof -
  let ?d = "sample_video 4 5 [0, 1, 2, 3, 4]"
  have run: "fst (predict_video_frames ?d (upload ''mp4'' ''/tmp/tmpq1.mp4'') Map.empty)
      = HTTP200 sample_payload"
    using sample_run by simp
  have rd: "file_read (upload ''mp4'' ''/tmp/tmpq1.mp4'') = Inr ''mp4''"
    by (simp add: upload_def)
  have i: "4 < length (read_frames (VideoCapture ?d ''mp4''))"
    by (simp add: sample_video_def)
  have m: "int 4 mod frame_interval sample_payload = 0"
    by (simp add: sample_payload_def)
  have cv: "cvtColor ?d (read_frames (VideoCapture ?d ''mp4'') ! 4) = Inr 4"
    by (simp add: sample_video_def)
  have pr: "predict ?d 4 = Inr None"
    by (simp add: sample_video_def)
  from pr have pr': "predict ?d 4 = Inr None \<or> predict ?d 4 = Inr (Some [])" by simp
  from empty_detections_kept [OF run rd i m cv pr'] run rd i m cv pr show ?thesis by blast
qed

subsection \<open>C8: a failing detector aborts the request\<close>

text \<open>
  C8. If \<^verbatim>\<open>model.predict\<close> raises on any sampled frame, the response is an HTTP 500 with a
  detail string: there is no payload, so the records built for earlier frames are not
  returned.
\<close>

theorem detector_failure_aborts:
  assumes "file_read rq = Inr content"
    and "int_of_float (CAP_PROP_FPS (VideoCapture d content)) = Inr fps'"
    and "i < length (read_frames (VideoCapture d content))"
    and "int i mod max 1 (fps' div 2) = 0"
    and "cvtColor d (read_frames (VideoCapture d content) ! i) = Inr frame_rgb"
    and "predict d frame_rgb = Inl e"
  shows "\<exists>detail. fst (predict_video_frames d rq files) = HTTP500 detail"
proof -
  have False if ok: "fst (predict_video_frames d rq files) = HTTP200 p" for p
  proof -
    from handler_HTTP200 [OF ok] assms(1)
    have an: "analyse d (VideoCapture d content) = Inr p" by auto
    from analyse_Inr(1,6) [OF an] assms(2,4) have "int i mod frame_interval p = 0" by simp
    with process_frames_sampled [OF analyse_Inr(7) [OF an] assms(3)]
    obtain r where
      "process_frame d (fps p) (read_frames (VideoCapture d content) ! i) (0 + int i) = Inr r"
      by auto
    from process_frame_detections [OF this] assms(5,6) show False by auto
  qed
  with response_cases [of d rq files] show ?thesis by blast
qed

text \<open>
  The sample model raises on frame 7, here the third frame, after two records were built.
\<close>

theorem detector_failure_aborts_witness:
  "file_read (upload ''mp4'' ''/tmp/tmpq1.mp4'') = Inr ''mp4'' \<and>
   int_of_float (CAP_PROP_FPS (VideoCapture (sample_video 2 4 [0, 2, 7, 4]) ''mp4'')) = Inr 2 \<and>
   2 < length (read_frames (VideoCapture (sample_video 2 4 [0, 2, 7, 4]) ''mp4'')) \<and>
   int 2 mod max 1 (2 div 2) = 0 \<and>
   cvtColor (sample_video 2 4 [0, 2, 7, 4])
     (read_frames (VideoCapture (sample_video 2 4 [0, 2, 7, 4]) ''mp4'') ! 2) = Inr 7 \<and>
   predict (sample_video 2 4 [0, 2, 7, 4]) 7 = Inl (External ''CUDA out of memory'') \<and>
   (\<exists>detail. fst (predict_video_frames (sample_video 2 4 [0, 2, 7, 4])
      (upload ''mp4'' ''/tmp/tmpq1.mp4'') Map.empty) = HTTP500 detail)"
proof -
  let ?d = "sample_video 2 4 [0, 2, 7, 4]"
  have rd: "file_read (upload ''mp4'' ''/tmp/tmpq1.mp4'') = Inr ''mp4''"
    by (simp add: upload_def)
  have rate: "int_of_float (CAP_PROP_FPS (VideoCapture ?d ''mp4'')) = Inr 2"
    by (simp add: sample_video_def)
  have i: "2 < length (read_frames (VideoCapture ?d ''mp4''))"
    by (simp add: sample_video_def)
  have m: "int 2 mod max 1 (2 div 2) = 0" by simp
  have cv: "cvtColor ?d (read_frames (VideoCapture ?d ''mp4'') ! 2) = Inr 7"
    by (simp add: sample_video_def)
  have pr: "predict ?d 7 = Inl (External ''CUDA out of memory'')"
    by (simp add: sample_video_def)
  from detector_failure_aborts [OF rd rate i m cv pr, of Map.empty] rd rate i m cv pr
  show ?thesis by blast
qed

subsection \<open>C9: two runs on the same bytes\<close>

text \<open>
  C9. Two successful runs on the same uploaded bytes with the same decoder and model
  agree on \<open>frame_number\<close>, \<open>timestamp\<close> and \<open>detections\<close> of every record, and on \<open>fps\<close>,
  \<open>total_frames\<close>, \<open>duration\<close> and \<open>frame_interval\<close>, whatever the name of the temporary
  file, the files already present and the output of the image encoder; with the same
  encoder the two payloads are equal.
\<close>

theorem rerun_gives_same_frames:
  assumes "fst (predict_video_frames d rq files) = HTTP200 p"
    and "fst (predict_video_frames (d\<lparr>imencode := enc\<rparr>) rq' files') = HTTP200 p'"
    and "file_read rq = Inr content" and "file_read rq' = Inr content"
  shows "map (\<lambda>r. (frame_number r, timestamp r, detections r)) (frames p) =
         map (\<lambda>r. (frame_number r, timestamp r, detections r)) (frames p') \<and>
     fps p = fps p' \<and> total_frames p = total_frames p' \<and> duration p = duration p' \<and>
     frame_interval p = frame_interval p' \<and> (enc = imencode d \<longrightarrow> p = p')"
proof -
  let ?cap = "VideoCapture d content"
  from handler_HTTP200 [OF assms(1)] assms(3)
  have an: "analyse d ?cap = Inr p" by auto
  from handler_HTTP200 [OF assms(2)] assms(4)
  have an': "analyse (d\<lparr>imencode := enc\<rparr>) ?cap = Inr p'" by auto
  from analyse_Inr(1,2) [OF an] analyse_Inr(1,2) [OF an']
  have same: "fps p = fps p'" "total_frames p = total_frames p'" by simp_all
  with analyse_Inr(5,6) [OF an] analyse_Inr(5,6) [OF an']
  have same2: "duration p = duration p'" "frame_interval p = frame_interval p'" by simp_all
  from analyse_Inr(7) [OF an] analyse_Inr(7) [OF an'] same same2
  have "process_frames d (fps p) (frame_interval p) (read_frames ?cap) 0 [] = Inr (frames p)"
    and "process_frames (d\<lparr>imencode := enc\<rparr>) (fps p) (frame_interval p) (read_frames ?cap) 0 []
      = Inr (frames p')"
    by simp_all
  from process_frames_reencoded [OF this]
  have core: "map (\<lambda>r. (frame_number r, timestamp r, detections r)) (frames p) =
         map (\<lambda>r. (frame_number r, timestamp r, detections r)) (frames p')" by simp
  have "p = p'" if "enc = imencode d"
  proof -
    from that have "d\<lparr>imencode := enc\<rparr> = d" by simp
    with an an' show ?thesis by simp
  qed
  with core same same2 show ?thesis by blast
qed

text \<open>
  A second run with another temporary name, a file left over and another encoding.
\<close>

theorem rerun_gives_same_frames_witness:
  "fst (predict_video_frames (sample_video 4 5 [0, 1, 2, 3, 4]) (upload ''mp4'' ''/tmp/tmpq1.mp4'')
      Map.empty) = HTTP200 sample_payload \<and>
   fst (predict_video_frames ((sample_video 4 5 [0, 1, 2, 3, 4])\<lparr>imencode := \<lambda>f. Inr ''/9j/4AAQ''\<rparr>)
      (upload ''mp4'' ''/tmp/tmpz9.mp4'') [''/tmp/tmpq1.mp4'' \<mapsto> ''left over''])
     = HTTP200 (sample_payload\<lparr>frames :=
         map (\<lambda>r. r\<lparr>frame_image := ''/9j/4AAQ''\<rparr>) (frames sample_payload)\<rparr>) \<and>
   file_read (upload ''mp4'' ''/tmp/tmpq1.mp4'') = Inr ''mp4'' \<and>
   file_read (upload ''mp4'' ''/tmp/tmpz9.mp4'') = Inr ''mp4'' \<and>
   map (\<lambda>r. (frame_number r, timestamp r, detections r)) (frames sample_payload) =
   map (\<lambda>r. (frame_number r, timestamp r, detections r))
     (frames (sample_payload\<lparr>frames :=
         map (\<lambda>r. r\<lparr>frame_image := ''/9j/4AAQ''\<rparr>) (frames sample_payload)\<rparr>))"
proof -
  let ?d = "sample_video 4 5 [0, 1, 2, 3, 4]"
  have run: "fst (predict_video_frames ?d (upload ''mp4'' ''/tmp/tmpq1.mp4'') Map.empty)
      = HTTP200 sample_payload"
    using sample_run by simp
  have run': "fst (predict_video_frames (?d\<lparr>imencode := \<lambda>f. Inr ''/9j/4AAQ''\<rparr>)
      (upload ''mp4'' ''/tmp/tmpz9.mp4'') [''/tmp/tmpq1.mp4'' \<mapsto> ''left over''])
     = HTTP200 (sample_payload\<lparr>frames :=
         map (\<lambda>r. r\<lparr>frame_image := ''/9j/4AAQ''\<rparr>) (frames sample_payload)\<rparr>)"
    by (simp add: run_defs sample_payload_def str_nat.simps)
  have rd: "file_read (upload ''mp4'' ''/tmp/tmpq1.mp4'') = Inr ''mp4''"
    "file_read (upload ''mp4'' ''/tmp/tmpz9.mp4'') = Inr ''mp4''"
    by (simp_all add: upload_def)
  from rerun_gives_same_frames [OF run run' rd] run run' rd show ?thesis by blast
qed

subsection \<open>C10: a video without decodable frames\<close>

text \<open>
  C10, as amended. When nothing fails around the pipeline, the capture reports a finite
  frame rate of at least 1 (so that \<open>fps\<close>, the rate truncated to an integer, is positive)
  and no frame decodes, the handler returns a 200 response with \<open>success = True\<close>, no
  frames, the message \<open>Processed 0 frames\<close> and \<open>duration = total_frames / fps\<close> for the
  reported frame count, which is 0 when that count is 0; and every 200 response of the
  handler has \<open>success = True\<close>.
\<close>

theorem empty_video_succeeds:
  assumes "NamedTemporaryFile rq = Inr tmp" and "file_read rq = Inr content"
    and "write_error rq = None" and "unlink_error rq = None"
    and "CAP_PROP_FPS (VideoCapture d content) = Finite rate" and "1 \<le> rate"
    and "int_of_float (CAP_PROP_FRAME_COUNT (VideoCapture d content)) = Inr total_frames'"
    and "read_frames (VideoCapture d content) = []"
  shows "predict_video_frames d rq files =
      (HTTP200 \<lparr>success = True, fps = \<lfloor>rate\<rfloor>, total_frames = total_frames',
                duration = of_int total_frames' / of_int \<lfloor>rate\<rfloor>,
                frame_interval = max 1 (\<lfloor>rate\<rfloor> div 2), frames = [],
                message = ''Processed 0 frames''\<rparr>,
       files(tmp := None)) \<and>
     0 < \<lfloor>rate\<rfloor> \<and>
     (total_frames' = 0 \<longrightarrow> rat_of_int total_frames' / rat_of_int \<lfloor>rate\<rfloor> = 0) \<and>
     (\<forall>(d'::'f deps) rq' files' p.
        fst (predict_video_frames d' rq' files') = HTTP200 p \<longrightarrow> success p)"
proof -
  from assms(6) have pos: "0 < \<lfloor>rate\<rfloor>" by (simp add: less_floor_iff)
  then have ne: "\<lfloor>rate\<rfloor> \<noteq> 0" by linarith
  from assms(5,6) have fp: "int_of_float (CAP_PROP_FPS (VideoCapture d content)) = Inr \<lfloor>rate\<rfloor>"
    by simp
  have "analyse d (VideoCapture d content) =
      Inr \<lparr>success = True, fps = \<lfloor>rate\<rfloor>, total_frames = total_frames',
                duration = of_int total_frames' / of_int \<lfloor>rate\<rfloor>,
                frame_interval = max 1 (\<lfloor>rate\<rfloor> div 2), frames = [],
                message = ''Processed 0 frames''\<rparr>"
    using fp ne assms(7,8)
    by (simp add: analyse_def truediv_def Let_def str_nat.simps digit_def)
  with handler_run [OF assms(1-4), of d files]
  have "predict_video_frames d rq files =
      (HTTP200 \<lparr>success = True, fps = \<lfloor>rate\<rfloor>, total_frames = total_frames',
                duration = of_int total_frames' / of_int \<lfloor>rate\<rfloor>,
                frame_interval = max 1 (\<lfloor>rate\<rfloor> div 2), frames = [],
                message = ''Processed 0 frames''\<rparr>,
       files(tmp := None))" by simp
  moreover have "success p" if "fst (predict_video_frames d' rq' files') = HTTP200 p"
    for d' :: "'f deps" and rq' files' p
    using handler_HTTP200 [OF that] analyse_Inr(4) by blast
  ultimately show ?thesis using pos by simp
qed

text \<open>
  25 frames per second, 0 frames reported, none delivered.
\<close>

theorem empty_video_succeeds_witness:
  "NamedTemporaryFile (upload ''mp4'' ''/tmp/tmpq1.mp4'') = Inr ''/tmp/tmpq1.mp4'' \<and>
   file_read (upload ''mp4'' ''/tmp/tmpq1.mp4'') = Inr ''mp4'' \<and>
   write_error (upload ''mp4'' ''/tmp/tmpq1.mp4'') = None \<and>
   unlink_error (upload ''mp4'' ''/tmp/tmpq1.mp4'') = None \<and>
   CAP_PROP_FPS (VideoCapture (sample_video 25 0 []) ''mp4'') = Finite 25 \<and>
   (1::rat) \<le> 25 \<and>
   int_of_float (CAP_PROP_FRAME_COUNT (VideoCapture (sample_video 25 0 []) ''mp4'')) = Inr 0 \<and>
   read_frames (VideoCapture (sample_video 25 0 []) ''mp4'') = [] \<and>
   predict_video_frames (sample_video 25 0 []) (upload ''mp4'' ''/tmp/tmpq1.mp4'') Map.empty =
     (HTTP200 \<lparr>success = True, fps = 25, total_frames = 0, duration = 0, frame_interval = 12,
               frames = [], message = ''Processed 0 frames''\<rparr>, Map.empty)"
proof -
  let ?d = "sample_video 25 0 []"
  let ?rq = "upload ''mp4'' ''/tmp/tmpq1.mp4''"
  have a: "NamedTemporaryFile ?rq = Inr ''/tmp/tmpq1.mp4''" "file_read ?rq = Inr ''mp4''"
    "write_error ?rq = None" "unlink_error ?rq = None"
    by (simp_all add: upload_def)
  have b: "CAP_PROP_FPS (VideoCapture ?d ''mp4'') = Finite 25" "(1::rat) \<le> 25"
    "int_of_float (CAP_PROP_FRAME_COUNT (VideoCapture ?d ''mp4'')) = Inr 0"
    "read_frames (VideoCapture ?d ''mp4'') = []"
    by (simp_all add: sample_video_def)
  from empty_video_succeeds [OF a b, of Map.empty] a b show ?thesis by auto
qed

text \<open>
  The claim as stated fails twice. A container that reports 300 frames at 30 frames per
  second and delivers none gives \<open>duration = 10\<close>, not 0. And a positive reported rate
  below 1, here one frame every two seconds, truncates to \<open>fps = 0\<close> at line 148, so that
  line 150 raises and the empty video gets an HTTP 500.
\<close>

theorem empty_video_duration_and_slow_rate:
  "fst (predict_video_frames (sample_video 30 300 []) (upload ''mp4'' ''/tmp/tmpq1.mp4'') Map.empty)
     = HTTP200 \<lparr>success = True, fps = 30, total_frames = 300, duration = 10, frame_interval = 15,
         frames = [], message = ''Processed 0 frames''\<rparr> \<and>
   fst (predict_video_frames (sample_video (1 / 2) 0 []) (upload ''mp4'' ''/tmp/tmpq1.mp4'') Map.empty)
     = HTTP500 ''division by zero''"
  by (simp add: run_defs str_nat.simps floor_half)

end
